theory Spec2Isabelle
  imports
    Complex_Main
    "HOL-Library.Char_ord"
    "HOL-Library.List_Lexorder"
    "HOL-Library.Product_Lexorder"
    "HOL-Library.AList"
    "HOL-Library.Multiset"
begin

section \<open>Task Management Analytics API: \<open>analytics-service/main.py\<close>\<close>

text \<open>
  The service has two request handlers, \<open>get_user_statistics\<close> and
  \<open>get_productivity_analysis\<close>. Each validates the user identifier, fetches task
  documents from MongoDB and reduces the fetched list to a result dictionary.
  The reductions are embedded as HOL functions over the fetched list; the handlers thread
  the library calls they make (the \<open>ObjectId\<close> constructor, the clock, the store)
  through an explicit environment and return the list of queries they issued.
\<close>

subsection \<open>Python values\<close>

text \<open>
  The exceptions the handlers can meet besides their own \<open>HTTPException\<close>: a true
  division \<open>/\<close> by zero, date arithmetic out of range (with the text of the exception),
  and a failure of the store (with its text).
\<close>

datatype py_error = ZeroDivisionError | OverflowError string | StoreError string

text \<open>
  Floating-point arithmetic is not given a bit-level model. The three float operations the
  source uses are the fields of a record that every function below takes as its first
  argument: \<open>a / b\<close> on two ints, \<open>x * k\<close> of a float and an int, and
  \<open>round(x, n)\<close>. Every theorem holds for every choice of these operations.
\<close>

record 'f float_ops =
  truediv :: "int \<Rightarrow> int \<Rightarrow> 'f"
  mul_int :: "'f \<Rightarrow> int \<Rightarrow> 'f"
  round_nd :: "'f \<Rightarrow> nat \<Rightarrow> 'f"

text \<open>A number in a result is the int literal \<open>0\<close> of a guard or a float.\<close>

datatype 'f number = PyInt int | PyFloat 'f

definition py_truediv :: "'f float_ops \<Rightarrow> int \<Rightarrow> int \<Rightarrow> py_error + 'f" where
  "py_truediv fl a b = (if b = 0 then Inl ZeroDivisionError else Inr (truediv fl a b))"

definition then_do :: "'e + 'a \<Rightarrow> ('a \<Rightarrow> 'e + 'b) \<Rightarrow> 'e + 'b" where
  "then_do m f = (case m of Inl e \<Rightarrow> Inl e | Inr x \<Rightarrow> f x)"

text \<open>\<open>round(a / b * 100, 2)\<close>, the expression shared by both rates.\<close>

definition percentage :: "'f float_ops \<Rightarrow> nat \<Rightarrow> nat \<Rightarrow> py_error + 'f" where
  "percentage fl a b =
     then_do (py_truediv fl (int a) (int b)) (\<lambda>q. Inr (round_nd fl (mul_int fl q 100) 2))"

text \<open>\<open>round(a / days, 2)\<close>, the expression shared by both averages.\<close>

definition per_day :: "'f float_ops \<Rightarrow> nat \<Rightarrow> int \<Rightarrow> py_error + 'f" where
  "per_day fl a days = then_do (py_truediv fl (int a) days) (\<lambda>q. Inr (round_nd fl q 2))"

text \<open>
  Exact rational arithmetic with Python's round-half-to-even, one instance of the float
  operations, used to run the model on concrete inputs.
\<close>

definition round_half_even :: "rat \<Rightarrow> nat \<Rightarrow> rat" where
  "round_half_even x n =
     (let y = x * 10 ^ n; f = \<lfloor>y\<rfloor>; r = y - of_int f
      in of_int (if r < 1 / 2 then f else if 1 / 2 < r then f + 1
                 else if even f then f else f + 1) / 10 ^ n)"

definition exact_ops :: "rat float_ops" where
  "exact_ops = \<lparr>truediv = (\<lambda>a b. of_int a / of_int b),
                mul_int = (\<lambda>x k. x * of_int k),
                round_nd = round_half_even\<rparr>"

subsection \<open>Dates and times\<close>

text \<open>
  A naive \<open>datetime\<close> as Python holds it. Python compares two of them field by field
  in this order.
\<close>

record datetime =
  year :: nat
  month :: nat
  day :: nat
  hour :: nat
  minute :: nat
  second :: nat
  microsecond :: nat

definition datetime_key :: "datetime \<Rightarrow> nat \<times> nat \<times> nat \<times> nat \<times> nat \<times> nat \<times> nat" where
  "datetime_key d = (year d, month d, day d, hour d, minute d, second d, microsecond d)"

definition datetime_less :: "datetime \<Rightarrow> datetime \<Rightarrow> bool" where
  "datetime_less a b = (datetime_key a < datetime_key b)"

definition digit_char :: "nat \<Rightarrow> char" where
  "digit_char n = char_of (48 + n)"

fun decimal :: "nat \<Rightarrow> string" where
  "decimal n = (if n < 10 then [digit_char n] else decimal (n div 10) @ [digit_char (n mod 10)])"

declare decimal.simps [simp del]

definition zfill :: "nat \<Rightarrow> string \<Rightarrow> string" where
  "zfill w s = replicate (w - length s) (CHR ''0'') @ s"

text \<open>The calendar day of a datetime, and \<open>strftime('%Y-%m-%d')\<close>.\<close>

definition calendar_day :: "datetime \<Rightarrow> nat \<times> nat \<times> nat" where
  "calendar_day d = (year d, month d, day d)"

definition format_ymd :: "nat \<times> nat \<times> nat \<Rightarrow> string" where
  "format_ymd ymd =
     (case ymd of (y, m, d) \<Rightarrow>
        zfill 4 (decimal y) @ ''-'' @ zfill 2 (decimal m) @ ''-'' @ zfill 2 (decimal d))"

definition strftime_ymd :: "datetime \<Rightarrow> string" where
  "strftime_ymd d = format_ymd (calendar_day d)"

text \<open>\<open>isoformat()\<close> of a naive datetime.\<close>

definition isoformat :: "datetime \<Rightarrow> string" where
  "isoformat d =
     strftime_ymd d @ ''T'' @ zfill 2 (decimal (hour d)) @ '':'' @ zfill 2 (decimal (minute d))
       @ '':'' @ zfill 2 (decimal (second d))
       @ (if microsecond d \<noteq> 0 then ''.'' @ zfill 6 (decimal (microsecond d)) else [])"

subsection \<open>Task documents\<close>

text \<open>
  A task document as the handlers read it: \<open>task.get(k)\<close> for the four keys they use.
  \<open>None\<close> is a missing key or a stored null. A status or priority is compared with
  string literals only, so any stored value that is not one of the literals behaves as an
  unknown string does. The two dates are stored as BSON dates, which the driver returns as
  datetimes.
\<close>

record task =
  status :: "string option"
  priority :: "string option"
  createdAt :: "datetime option"
  dueDate :: "datetime option"

text \<open>\<open>sum(1 for task in tasks if P(task))\<close>\<close>

definition sum1 :: "('a \<Rightarrow> bool) \<Rightarrow> 'a list \<Rightarrow> nat" where
  "sum1 P tasks = sum_list (map (\<lambda>task. 1) (filter P tasks))"

subsection \<open>The statistics reduction (lines 66 to 120)\<close>

record response =
  success :: bool
  user_id :: string

record 'f user_stats = response +
  total_tasks :: nat
  completed_tasks :: nat
  pending_tasks :: nat
  in_progress_tasks :: nat
  completion_rate :: "'f number"
  priority_distribution :: "(string \<times> nat) list"
  status_distribution :: "(string \<times> nat) list"

text \<open>The literal returned at lines 67 to 85 when the fetched list is empty.\<close>

definition empty_statistics :: "string \<Rightarrow> 'f user_stats" where
  "empty_statistics uid =
     \<lparr>success = True, user_id = uid,
      total_tasks = 0, completed_tasks = 0, pending_tasks = 0, in_progress_tasks = 0,
      completion_rate = PyInt 0,
      priority_distribution = [(''Low'', 0), (''Medium'', 0), (''High'', 0)],
      status_distribution = [(''Todo'', 0), (''In Progress'', 0), (''Completed'', 0)]\<rparr>"

text \<open>The tally of lines 88 to 120.\<close>

definition tally_statistics :: "'f float_ops \<Rightarrow> string \<Rightarrow> task list \<Rightarrow> py_error + 'f user_stats" where
  "tally_statistics fl uid tasks =
     (let total = length tasks;
          completed = sum1 (\<lambda>task. status task = Some ''Completed'') tasks;
          in_progress = sum1 (\<lambda>task. status task = Some ''In Progress'') tasks;
          pending = sum1 (\<lambda>task. status task = Some ''Todo'') tasks;
          priorities =
            [(''Low'', sum1 (\<lambda>task. priority task = Some ''Low'') tasks),
             (''Medium'', sum1 (\<lambda>task. priority task = Some ''Medium'') tasks),
             (''High'', sum1 (\<lambda>task. priority task = Some ''High'') tasks)];
          statuses = [(''Todo'', pending), (''In Progress'', in_progress), (''Completed'', completed)]
      in then_do
           (if 0 < total then then_do (percentage fl completed total) (\<lambda>x. Inr (PyFloat x))
            else Inr (PyInt 0))
           (\<lambda>rate. Inr
              \<lparr>success = True, user_id = uid,
               total_tasks = total, completed_tasks = completed, pending_tasks = pending,
               in_progress_tasks = in_progress, completion_rate = rate,
               priority_distribution = priorities, status_distribution = statuses\<rparr>))"

definition user_statistics :: "'f float_ops \<Rightarrow> string \<Rightarrow> task list \<Rightarrow> py_error + 'f user_stats" where
  "user_statistics fl uid tasks =
     (if tasks = [] then Inr (empty_statistics uid) else tally_statistics fl uid tasks)"

subsection \<open>The productivity reduction (lines 150 to 191)\<close>

text \<open>
  A dictionary keeps its keys in insertion order: an association list with distinct keys,
  where an assignment replaces the value of a present key in place and appends an absent
  one (\<open>AList.update\<close>). \<open>d.get(k, v)\<close> is \<open>dict_get\<close>.
\<close>

definition dict_get :: "('k \<times> 'v) list \<Rightarrow> 'k \<Rightarrow> 'v \<Rightarrow> 'v" where
  "dict_get d k v = (case map_of d k of None \<Rightarrow> v | Some w \<Rightarrow> w)"

text \<open>The body of the loop at lines 155 to 159.\<close>

definition count_completion :: "(string \<times> nat) list \<Rightarrow> task \<Rightarrow> (string \<times> nat) list" where
  "count_completion daily task =
     (case createdAt task of
        None \<Rightarrow> daily
      | Some created_date \<Rightarrow>
          (let date_key = strftime_ymd created_date
           in AList.update date_key (dict_get daily date_key 0 + 1) daily))"

definition daily_completions :: "task list \<Rightarrow> (string \<times> nat) list" where
  "daily_completions completed = foldl count_completion [] completed"

text \<open>
  The generator at lines 170 to 173 calls \<open>datetime.now()\<close> once for every task that
  passes the first two tests of the conjunction. \<open>clock k\<close> is what the \<open>k\<close>-th
  such call returns.
\<close>

fun overdue_count :: "(nat \<Rightarrow> datetime) \<Rightarrow> nat \<Rightarrow> task list \<Rightarrow> nat" where
  "overdue_count clock k [] = 0"
| "overdue_count clock k (task # tasks) =
     (if status task \<noteq> Some ''Completed'' then
        (case dueDate task of
           None \<Rightarrow> overdue_count clock k tasks
         | Some due \<Rightarrow>
             (if datetime_less due (clock k) then 1 else 0) + overdue_count clock (Suc k) tasks)
      else overdue_count clock k tasks)"

record 'f productivity = response +
  period_days :: int
  start_date :: string
  end_date :: string
  total_tasks_created :: nat
  total_tasks_completed :: nat
  overdue_tasks :: nat
  avg_tasks_per_day :: "'f number"
  avg_completions_per_day :: "'f number"
  daily_completion_trend :: "(string \<times> nat) list"
  productivity_score :: "'f number"

text \<open>
  \<open>sorted(daily_completions.items())\<close> sorts pairs of a string and an int in Python's
  tuple order, which is the lexicographic order of the product.
\<close>

definition productivity_analysis ::
  "'f float_ops \<Rightarrow> (nat \<Rightarrow> datetime) \<Rightarrow> string \<Rightarrow> int \<Rightarrow> datetime \<Rightarrow> datetime \<Rightarrow> task list
     \<Rightarrow> py_error + 'f productivity" where
  "productivity_analysis fl clock uid days start end tasks =
     (let completed = filter (\<lambda>task. status task = Some ''Completed'') tasks;
          daily = daily_completions completed;
          total_created = length tasks;
          total_completed = length completed
      in then_do
           (if 0 < days then then_do (per_day fl total_created days) (\<lambda>x. Inr (PyFloat x))
            else Inr (PyInt 0))
           (\<lambda>avg_tasks. then_do
              (if 0 < days then then_do (per_day fl total_completed days) (\<lambda>x. Inr (PyFloat x))
               else Inr (PyInt 0))
              (\<lambda>avg_completions.
                 (let overdue = overdue_count clock 0 tasks
                  in then_do
                       (if 0 < total_created
                        then then_do (percentage fl total_completed total_created)
                               (\<lambda>x. Inr (PyFloat x))
                        else Inr (PyInt 0))
                       (\<lambda>score. Inr
                          \<lparr>success = True, user_id = uid,
                           period_days = days,
                           start_date = isoformat start, end_date = isoformat end,
                           total_tasks_created = total_created,
                           total_tasks_completed = total_completed,
                           overdue_tasks = overdue,
                           avg_tasks_per_day = avg_tasks,
                           avg_completions_per_day = avg_completions,
                           daily_completion_trend = sort daily,
                           productivity_score = score\<rparr>)))))"

subsection \<open>Date arithmetic of the window (line 142)\<close>

text \<open>
  \<open>timedelta(days=days)\<close> accepts at most 999999999 days in either direction.
\<close>

definition str_int :: "int \<Rightarrow> string" where
  "str_int i = (if i < 0 then ''-'' @ decimal (nat (- i)) else decimal (nat i))"

definition timedelta :: "int \<Rightarrow> py_error + int" where
  "timedelta days =
     (if 999999999 < \<bar>days\<bar>
      then Inl (OverflowError (''days='' @ str_int days @ ''; must have magnitude <= 999999999''))
      else Inr days)"

text \<open>
  A date minus a number of days goes through the proleptic Gregorian ordinal, day 1 being
  0001-01-01 and day 3652059 being 9999-12-31, as the \<open>datetime\<close> module computes it.
\<close>

definition is_leap :: "nat \<Rightarrow> bool" where
  "is_leap y = (y mod 4 = 0 \<and> (y mod 100 \<noteq> 0 \<or> y mod 400 = 0))"

definition days_before_year :: "nat \<Rightarrow> nat" where
  "days_before_year y = (let z = y - 1 in z * 365 + z div 4 - z div 100 + z div 400)"

definition days_in_month_table :: "nat list" where
  "days_in_month_table = [31, 28, 31, 30, 31, 30, 31, 31, 30, 31, 30, 31]"

definition days_before_month_table :: "nat list" where
  "days_before_month_table = [0, 31, 59, 90, 120, 151, 181, 212, 243, 273, 304, 334]"

definition days_before_month :: "nat \<Rightarrow> nat \<Rightarrow> nat" where
  "days_before_month y m =
     days_before_month_table ! (m - 1) + (if 2 < m \<and> is_leap y then 1 else 0)"

definition ymd2ord :: "nat \<Rightarrow> nat \<Rightarrow> nat \<Rightarrow> nat" where
  "ymd2ord y m d = days_before_year y + days_before_month y m + d"

definition ord2ymd :: "nat \<Rightarrow> nat \<times> nat \<times> nat" where
  "ord2ymd ordinal =
     (let n = ordinal - 1;
          n400 = n div 146097; n = n mod 146097;
          n100 = n div 36524; n = n mod 36524;
          n4 = n div 1461; n = n mod 1461;
          n1 = n div 365; n = n mod 365;
          y = n400 * 400 + 1 + n100 * 100 + n4 * 4 + n1
      in if n1 = 4 \<or> n100 = 4 then (y - 1, 12, 31)
         else
           (let leapyear = (n1 = 3 \<and> (n4 \<noteq> 24 \<or> n100 = 3));
                m = (n + 50) div 32;
                preceding = days_before_month_table ! (m - 1) + (if 2 < m \<and> leapyear then 1 else 0)
            in if n < preceding
               then (let m' = m - 1;
                         preceding' = preceding -
                           (days_in_month_table ! (m' - 1) + (if m' = 2 \<and> leapyear then 1 else 0))
                     in (y, m', n - preceding' + 1))
               else (y, m, n - preceding + 1)))"

definition minus_days :: "datetime \<Rightarrow> int \<Rightarrow> py_error + datetime" where
  "minus_days d days =
     (let n = int (ymd2ord (year d) (month d) (day d)) - days
      in if 0 < n \<and> n \<le> 3652059
         then (case ord2ymd (nat n) of (y, m, dd) \<Rightarrow> Inr (d\<lparr>year := y, month := m, day := dd\<rparr>))
         else Inl (OverflowError ''date value out of range''))"

subsection \<open>The request handlers\<close>

text \<open>\<open>HTTPException(status_code, detail)\<close>\<close>

datatype http_exception = HTTPException nat string

text \<open>
  The two filters the handlers pass to \<open>db.tasks.find\<close>: \<open>{"user": oid}\<close> and
  \<open>{"user": oid, "createdAt": {"$gte": start, "$lte": end}}\<close>.
\<close>

datatype 'oid query = Find_user 'oid | Find_user_created 'oid datetime datetime

text \<open>
  What a handler takes from outside the module: the \<open>ObjectId\<close> constructor of the
  \<open>bson\<close> package (\<open>None\<close> when it raises), the store (the list of documents of
  a query, or the text of the exception it raised), and the clock (\<open>now k\<close> is what the
  \<open>k\<close>-th call of \<open>datetime.now()\<close> in the request returns).
\<close>

record 'oid env =
  ObjectId :: "string \<Rightarrow> 'oid option"
  tasks_find :: "'oid query \<Rightarrow> string + task list"
  now :: "nat \<Rightarrow> datetime"

definition str_error :: "py_error \<Rightarrow> string" where
  "str_error e =
     (case e of ZeroDivisionError \<Rightarrow> ''division by zero'' | OverflowError m \<Rightarrow> m | StoreError m \<Rightarrow> m)"

definition validate_object_id :: "'oid env \<Rightarrow> string \<Rightarrow> http_exception + 'oid" where
  "validate_object_id env id_str =
     (case ObjectId env id_str of
        Some oid \<Rightarrow> Inr oid
      | None \<Rightarrow> Inl (HTTPException 400 ''Invalid user ID format''))"

text \<open>
  A handler returns its response together with the queries it sent to the store, in order.
  \<open>except Exception\<close> turns every other exception into a 500 response.
\<close>

definition get_user_statistics ::
  "'f float_ops \<Rightarrow> 'oid env \<Rightarrow> string \<Rightarrow> (http_exception + 'f user_stats) \<times> 'oid query list" where
  "get_user_statistics fl env uid =
     (case validate_object_id env uid of
        Inl e \<Rightarrow> (Inl e, [])
      | Inr user_object_id \<Rightarrow>
          (let q = Find_user user_object_id
           in (case tasks_find env q of
                 Inl m \<Rightarrow> (Inl (HTTPException 500 (''Error fetching user statistics: '' @ m)), [q])
               | Inr tasks \<Rightarrow>
                   (case user_statistics fl uid tasks of
                      Inl e \<Rightarrow>
                        (Inl (HTTPException 500 (''Error fetching user statistics: '' @ str_error e)), [q])
                    | Inr r \<Rightarrow> (Inr r, [q])))))"

definition get_productivity_analysis ::
  "'f float_ops \<Rightarrow> 'oid env \<Rightarrow> string \<Rightarrow> int
     \<Rightarrow> (http_exception + 'f productivity) \<times> 'oid query list" where
  "get_productivity_analysis fl env uid days =
     (case validate_object_id env uid of
        Inl e \<Rightarrow> (Inl e, [])
      | Inr user_object_id \<Rightarrow>
          (let end = now env 0
           in (case then_do (timedelta days) (minus_days end) of
                 Inl e \<Rightarrow>
                   (Inl (HTTPException 500 (''Error fetching productivity analysis: '' @ str_error e)), [])
               | Inr start \<Rightarrow>
                   (let q = Find_user_created user_object_id start end
                    in (case tasks_find env q of
                          Inl m \<Rightarrow>
                            (Inl (HTTPException 500 (''Error fetching productivity analysis: '' @ m)), [q])
                        | Inr tasks \<Rightarrow>
                            (case productivity_analysis fl (\<lambda>k. now env (Suc k)) uid days start end tasks of
                               Inl e \<Rightarrow>
                                 (Inl (HTTPException 500
                                    (''Error fetching productivity analysis: '' @ str_error e)), [q])
                             | Inr r \<Rightarrow> (Inr r, [q])))))))"

text \<open>
  The documented form of an \<open>ObjectId\<close> string: 24 hexadecimal digits. An instance of
  the constructor, used to run the handlers on concrete identifiers.
\<close>

definition is_hex_digit :: "char \<Rightarrow> bool" where
  "is_hex_digit c = (c \<in> set ''0123456789abcdefABCDEF'')"

definition hex_object_id :: "string \<Rightarrow> string option" where
  "hex_object_id s = (if length s = 24 \<and> list_all is_hex_digit s then Some s else None)"

subsection \<open>Fixtures\<close>

text \<open>
  Ten tasks: four Completed, three In Progress, three Todo, with priorities
  five Low, three Medium, two High.
\<close>

definition fixture :: "task list" where
  "fixture =
     [\<lparr>status = Some ''Completed'', priority = Some ''Low'', createdAt = None, dueDate = None\<rparr>,
      \<lparr>status = Some ''Completed'', priority = Some ''Low'', createdAt = None, dueDate = None\<rparr>,
      \<lparr>status = Some ''Completed'', priority = Some ''Low'', createdAt = None, dueDate = None\<rparr>,
      \<lparr>status = Some ''Completed'', priority = Some ''Low'', createdAt = None, dueDate = None\<rparr>,
      \<lparr>status = Some ''In Progress'', priority = Some ''Medium'', createdAt = None, dueDate = None\<rparr>,
      \<lparr>status = Some ''In Progress'', priority = Some ''Medium'', createdAt = None, dueDate = None\<rparr>,
      \<lparr>status = Some ''In Progress'', priority = Some ''Medium'', createdAt = None, dueDate = None\<rparr>,
      \<lparr>status = Some ''Todo'', priority = Some ''Low'', createdAt = None, dueDate = None\<rparr>,
      \<lparr>status = Some ''Todo'', priority = Some ''High'', createdAt = None, dueDate = None\<rparr>,
      \<lparr>status = Some ''Todo'', priority = Some ''High'', createdAt = None, dueDate = None\<rparr>]"

section \<open>Properties of the statistics reduction\<close>

lemma sum1_length: "sum1 P xs = length (filter P xs)"
  by (induction xs) (simp_all add: sum1_def)

lemma percentage_ok:
  "0 < b \<Longrightarrow> percentage fl a b = Inr (round_nd fl (mul_int fl (truediv fl (int a) (int b)) 100) 2)"
  by (simp add: percentage_def py_truediv_def then_do_def)

lemma tally_statistics_eq:
  "tally_statistics fl uid tasks = Inr
     \<lparr>success = True, user_id = uid,
      total_tasks = length tasks,
      completed_tasks = length (filter (\<lambda>task. status task = Some ''Completed'') tasks),
      pending_tasks = length (filter (\<lambda>task. status task = Some ''Todo'') tasks),
      in_progress_tasks = length (filter (\<lambda>task. status task = Some ''In Progress'') tasks),
      completion_rate =
        (if tasks = [] then PyInt 0
         else PyFloat (round_nd fl (mul_int fl (truediv fl
                (int (length (filter (\<lambda>task. status task = Some ''Completed'') tasks)))
                (int (length tasks))) 100) 2)),
      priority_distribution =
        [(''Low'', length (filter (\<lambda>task. priority task = Some ''Low'') tasks)),
         (''Medium'', length (filter (\<lambda>task. priority task = Some ''Medium'') tasks)),
         (''High'', length (filter (\<lambda>task. priority task = Some ''High'') tasks))],
      status_distribution =
        [(''Todo'', length (filter (\<lambda>task. status task = Some ''Todo'') tasks)),
         (''In Progress'', length (filter (\<lambda>task. status task = Some ''In Progress'') tasks)),
         (''Completed'', length (filter (\<lambda>task. status task = Some ''Completed'') tasks))]\<rparr>"
  by (cases "tasks = []")
     (simp_all add: tally_statistics_def Let_def sum1_length percentage_ok then_do_def)

lemma user_statistics_tally: "user_statistics fl uid tasks = tally_statistics fl uid tasks"
  by (simp add: user_statistics_def tally_statistics_eq empty_statistics_def)

lemma exact_percentage_40:
  "round_nd exact_ops (mul_int exact_ops (truediv exact_ops 4 10) 100) 2 = 40"
  by (simp add: exact_ops_def round_half_even_def Let_def)

lemma three_way_count:
  "\<forall>x \<in> set xs. f x = a \<or> f x = b \<or> f x = c \<Longrightarrow> a \<noteq> b \<Longrightarrow> a \<noteq> c \<Longrightarrow> b \<noteq> c \<Longrightarrow>
   length (filter (\<lambda>x. f x = a) xs) + length (filter (\<lambda>x. f x = b) xs)
     + length (filter (\<lambda>x. f x = c) xs) = length xs"
  by (induction xs) auto

lemma three_way_bound:
  "a \<noteq> b \<Longrightarrow> a \<noteq> c \<Longrightarrow> b \<noteq> c \<Longrightarrow>
   length (filter (\<lambda>x. f x = a) xs) + length (filter (\<lambda>x. f x = b) xs)
     + length (filter (\<lambda>x. f x = c) xs) \<le> length xs"
  by (induction xs) auto

text \<open>
  C1. The statistics reduction never fails. On a non-empty list its completion rate is the
  float \<open>round(completed / total * 100, 2)\<close>, where \<open>completed\<close> is the number of
  tasks whose status is Completed and \<open>total\<close> the length of the list; when the total is
  0 the rate is the int 0.
\<close>

theorem completion_rate_value:
  "\<exists>r. user_statistics fl uid tasks = Inr r \<and>
       total_tasks r = length tasks \<and>
       completed_tasks r = length (filter (\<lambda>task. status task = Some ''Completed'') tasks) \<and>
       (tasks \<noteq> [] \<longrightarrow>
          completion_rate r =
            PyFloat (round_nd fl (mul_int fl
              (truediv fl (int (completed_tasks r)) (int (total_tasks r))) 100) 2)) \<and>
       (total_tasks r = 0 \<longrightarrow> completion_rate r = PyInt 0)"
  by (simp add: user_statistics_tally tally_statistics_eq)

theorem completion_rate_value_witness:
  "fixture \<noteq> [] \<and>
   (\<exists>r. user_statistics exact_ops ''u1'' fixture = Inr r \<and> total_tasks r = 10 \<and>
        completed_tasks r = 4 \<and> completion_rate r = PyFloat 40) \<and>
   (\<exists>r. user_statistics exact_ops ''u1'' [] = Inr r \<and> total_tasks r = 0 \<and>
        completion_rate r = PyInt 0)"
proof -
  have "fixture \<noteq> []" by (simp add: fixture_def)
  moreover have "length fixture = 10"
    and "length (filter (\<lambda>task. status task = Some ''Completed'') fixture) = 4"
    by (simp_all add: fixture_def)
  ultimately show ?thesis
    using completion_rate_value [of exact_ops "''u1''" fixture]
      completion_rate_value [of exact_ops "''u1''" "[]"]
    by (auto simp: exact_percentage_40)
qed

text \<open>
  C2. On the empty list the statistics reduction returns the literal of lines 67 to 85:
  every count 0, the rate the int 0, and the six distribution keys Low, Medium, High, Todo,
  In Progress, Completed present with the value 0. The tally of lines 88 to 120, run on the
  empty list, returns the same result.
\<close>

theorem empty_input_statistics:
  "user_statistics fl uid [] =
     Inr \<lparr>success = True, user_id = uid,
          total_tasks = 0, completed_tasks = 0, pending_tasks = 0, in_progress_tasks = 0,
          completion_rate = PyInt 0,
          priority_distribution = [(''Low'', 0), (''Medium'', 0), (''High'', 0)],
          status_distribution = [(''Todo'', 0), (''In Progress'', 0), (''Completed'', 0)]\<rparr> \<and>
   tally_statistics fl uid [] = user_statistics fl uid []"
  by (simp add: user_statistics_def empty_statistics_def tally_statistics_def sum1_def then_do_def)

text \<open>
  C3. For every list of tasks the three status counts add up to at most the total, and when
  every task has one of the priorities Low, Medium, High the three counts of the priority
  distribution add up to the total.
\<close>

theorem status_and_priority_sums:
  "\<exists>r l m h. user_statistics fl uid tasks = Inr r \<and>
       completed_tasks r + pending_tasks r + in_progress_tasks r \<le> total_tasks r \<and>
       priority_distribution r = [(''Low'', l), (''Medium'', m), (''High'', h)] \<and>
       ((\<forall>task \<in> set tasks. priority task = Some ''Low'' \<or> priority task = Some ''Medium''
            \<or> priority task = Some ''High'') \<longrightarrow>
        l + m + h = total_tasks r)"
proof -
  have "length (filter (\<lambda>task. status task = Some ''Completed'') tasks)
        + length (filter (\<lambda>task. status task = Some ''Todo'') tasks)
        + length (filter (\<lambda>task. status task = Some ''In Progress'') tasks) \<le> length tasks"
    by (rule three_way_bound) simp_all
  moreover have "length (filter (\<lambda>task. priority task = Some ''Low'') tasks)
        + length (filter (\<lambda>task. priority task = Some ''Medium'') tasks)
        + length (filter (\<lambda>task. priority task = Some ''High'') tasks) = length tasks"
    if "\<forall>task \<in> set tasks. priority task = Some ''Low'' \<or> priority task = Some ''Medium''
            \<or> priority task = Some ''High''"
    using that by (intro three_way_count) simp_all
  ultimately show ?thesis
    by (simp add: user_statistics_tally tally_statistics_eq)
qed

theorem status_and_priority_sums_witness:
  "list_all (\<lambda>task. priority task = Some ''Low'' \<or> priority task = Some ''Medium''
       \<or> priority task = Some ''High'') fixture \<and>
   (\<exists>r l m h. user_statistics exact_ops ''u1'' fixture = Inr r \<and>
        completed_tasks r + pending_tasks r + in_progress_tasks r \<le> total_tasks r \<and>
        priority_distribution r = [(''Low'', l), (''Medium'', m), (''High'', h)] \<and>
        l + m + h = total_tasks r)"
proof -
  have h: "\<forall>task \<in> set fixture. priority task = Some ''Low'' \<or> priority task = Some ''Medium''
       \<or> priority task = Some ''High''"
    by (simp add: fixture_def)
  show ?thesis
    using h status_and_priority_sums [of exact_ops "''u1''" fixture]
    unfolding list_all_iff by blast
qed

text \<open>
  C9. A task whose status is missing or is none of Todo, In Progress, Completed adds one to
  the total and leaves every status count as it is without the task; a task whose priority
  is missing or is none of Low, Medium, High adds one to the total and leaves the priority
  distribution as it is. Neither makes the reduction fail.
\<close>

theorem unknown_labels_uncounted:
  "\<exists>r r'. user_statistics fl uid (xs @ task # ys) = Inr r \<and>
          user_statistics fl uid (xs @ ys) = Inr r' \<and>
          total_tasks r = total_tasks r' + 1 \<and>
          (status task \<noteq> Some ''Todo'' \<and> status task \<noteq> Some ''In Progress''
             \<and> status task \<noteq> Some ''Completed'' \<longrightarrow>
           status_distribution r = status_distribution r' \<and>
           pending_tasks r = pending_tasks r' \<and> in_progress_tasks r = in_progress_tasks r' \<and>
           completed_tasks r = completed_tasks r') \<and>
          (priority task \<noteq> Some ''Low'' \<and> priority task \<noteq> Some ''Medium''
             \<and> priority task \<noteq> Some ''High'' \<longrightarrow>
           priority_distribution r = priority_distribution r')"
  by (simp add: user_statistics_tally tally_statistics_eq)

theorem unknown_labels_uncounted_witness:
  "(let task = \<lparr>status = Some ''Archived'', priority = None, createdAt = None, dueDate = None\<rparr>
    in status task \<noteq> Some ''Todo'' \<and> status task \<noteq> Some ''In Progress''
       \<and> status task \<noteq> Some ''Completed''
       \<and> priority task \<noteq> Some ''Low'' \<and> priority task \<noteq> Some ''Medium''
       \<and> priority task \<noteq> Some ''High''
       \<and> (\<exists>r r'. user_statistics exact_ops ''u1'' ([] @ task # fixture) = Inr r \<and>
              user_statistics exact_ops ''u1'' ([] @ fixture) = Inr r' \<and>
              total_tasks r = total_tasks r' + 1 \<and>
              status_distribution r = status_distribution r' \<and>
              priority_distribution r = priority_distribution r'))"
  using unknown_labels_uncounted [of exact_ops "''u1''" "[]"
      "\<lparr>status = Some ''Archived'', priority = None, createdAt = None, dueDate = None\<rparr>" fixture]
  by (simp add: Let_def) blast

end
